theory Spec2Isabelle
  imports Main
begin

section \<open>Data model (models.py)\<close>

text \<open>
  The four tables of models.py are records; a table is the list of its rows in insertion
  order and the database is a record of the four tables. A \<open>datetime\<close> is kept as a
  number (seconds); the string that \<open>isoformat()\<close> renders is kept symbolic in the JSON
  constructor \<open>JIso\<close>. Python integers are unbounded, hence \<open>int\<close>.
\<close>

type_synonym datetime = nat

record user =
  u_id :: int
  u_username :: string
  u_email :: string
  u_password_hash :: string
  u_is_active :: bool
  u_created_at :: datetime

record fact =
  f_id :: int
  f_content :: string
  f_category :: string
  f_is_active :: bool
  f_created_at :: datetime
  f_view_count :: int

record favorite =
  fav_id :: int
  fav_user_id :: int
  fav_fact_id :: int
  fav_created_at :: datetime

record api_usage =
  au_id :: int
  au_endpoint :: string
  au_method :: string
  au_ip_address :: string
  au_user_id :: "int option"
  au_response_code :: int
  au_response_time_ms :: int
  au_timestamp :: datetime

record db =
  users :: "user list"
  facts :: "fact list"
  favorites :: "favorite list"
  usages :: "api_usage list"

definition empty_db :: db where
  "empty_db = \<lparr>users = [], facts = [], favorites = [], usages = []\<rparr>"

section \<open>JSON bodies and handler results\<close>

datatype json =
    JNull
  | JBool bool
  | JInt int
  | JStr string
  | JIso datetime
  | JList "json list"
  | JObj "(string \<times> json) list"

text \<open>
  A view function returns either the object built by \<open>jsonify(...)\<close> (a Flask response
  object, whose \<open>status_code\<close> attribute is 200) or a tuple \<open>(body, status)\<close>.
\<close>

datatype response =
    Response json
  | Tuple json int

text \<open>The status the client receives.\<close>

fun http_status :: "response \<Rightarrow> int" where
  "http_status (Response b) = 200"
| "http_status (Tuple b c) = c"

fun body :: "response \<Rightarrow> json" where
  "body (Response b) = b"
| "body (Tuple b c) = b"

text \<open>
  \<open>hasattr(response, 'status_code')\<close> and the attribute's value: a response object has
  one, a tuple has none.
\<close>

fun status_code_attr :: "response \<Rightarrow> int option" where
  "status_code_attr (Response b) = Some 200"
| "status_code_attr (Tuple b c) = None"

text \<open>Dictionary lookup in a JSON object.\<close>

fun field :: "string \<Rightarrow> json \<Rightarrow> json option" where
  "field k (JObj kvs) = map_of kvs k"
| "field k j = None"

datatype exn = Exn string

section \<open>The store\<close>

text \<open>
  The relational store is a collaborator of app.py; conftest.py configures SQLite. It is
  modelled as a transactional store. A \<open>commit\<close> raises when a constraint declared in
  models.py is violated, and also when the store refuses it for a reason of its own (a
  locked database, a failed write): that refusal is an input of the request, read from its
  environment. On a raise nothing is written (the handler's \<open>rollback\<close>). Primary keys are
  auto-incremented: a new row gets an identifier above every identifier of its table.
  An integer sent to the store as a query parameter must fit the store's 64-bit signed
  integer: the driver raises \<open>OverflowError\<close> otherwise.
\<close>

datatype db_error = IntegrityError | OperationalError

definition in_int64 :: "int \<Rightarrow> bool" where
  "in_int64 i \<longleftrightarrow> - (2 ^ 63) \<le> i \<and> i < 2 ^ 63"

definition next_id :: "int list \<Rightarrow> int" where
  "next_id ids = foldr max ids 0 + 1"

definition first :: "'a list \<Rightarrow> 'a option" where
  "first xs = (case xs of [] \<Rightarrow> None | x # _ \<Rightarrow> Some x)"

text \<open>\<open>order_by(db.func.random()).first()\<close>: the draw \<open>r\<close> is the environment's.\<close>

definition random_first :: "nat \<Rightarrow> 'a list \<Rightarrow> 'a option" where
  "random_first r xs = (if xs = [] then None else Some (xs ! (r mod length xs)))"

text \<open>
  \<open>Fact.query.get(id)\<close> with an id taken from the request: the id is a query parameter.
\<close>

definition Fact_query_get :: "db \<Rightarrow> int \<Rightarrow> exn + fact option" where
  "Fact_query_get s i =
     (if in_int64 i then Inr (find (\<lambda>x. f_id x = i) (facts s))
      else Inl (Exn ''OverflowError''))"

text \<open>
  The ORM reading a loaded fact again by its primary key, which is a stored identifier.
\<close>

definition refresh :: "db \<Rightarrow> fact \<Rightarrow> fact option" where
  "refresh s x = find (\<lambda>y. f_id y = f_id x) (facts s)"

definition User_query_get :: "db \<Rightarrow> int \<Rightarrow> user option" where
  "User_query_get s i = find (\<lambda>x. u_id x = i) (users s)"

text \<open>
  \<open>Favorite.query.filter_by(user_id=..., fact_id=...)\<close>: the fact id is taken from the
  request and is a query parameter; the user id is the identity of a token, issued for a
  stored user id.
\<close>

definition Favorite_filter_by :: "db \<Rightarrow> int \<Rightarrow> int \<Rightarrow> exn + favorite list" where
  "Favorite_filter_by s uid fid =
     (if in_int64 fid
      then Inr (filter (\<lambda>r. fav_user_id r = uid \<and> fav_fact_id r = fid) (favorites s))
      else Inl (Exn ''OverflowError''))"

text \<open>
  The commits. The first argument says whether the store refuses this commit.
  INSERT of a Favorite under \<open>UniqueConstraint('user_id', 'fact_id')\<close>:
\<close>

definition commit_add_favorite :: "bool \<Rightarrow> db \<Rightarrow> int \<Rightarrow> int \<Rightarrow> datetime \<Rightarrow> db_error + db" where
  "commit_add_favorite refused s uid fid t =
     (if refused then Inl OperationalError
      else if filter (\<lambda>r. fav_user_id r = uid \<and> fav_fact_id r = fid) (favorites s) \<noteq> []
      then Inl IntegrityError
      else Inr (s\<lparr>favorites := favorites s @
             [\<lparr>fav_id = next_id (map fav_id (favorites s)), fav_user_id = uid,
               fav_fact_id = fid, fav_created_at = t\<rparr>]\<rparr>))"

text \<open>DELETE of a loaded Favorite: \<open>DELETE FROM favorite WHERE id = ?\<close>.\<close>

definition commit_delete_favorite :: "bool \<Rightarrow> db \<Rightarrow> favorite \<Rightarrow> db_error + db" where
  "commit_delete_favorite refused s r =
     (if refused then Inl OperationalError
      else Inr (s\<lparr>favorites := filter (\<lambda>x. fav_id x \<noteq> fav_id r) (favorites s)\<rparr>))"

text \<open>
  UPDATE of a loaded Fact's counter: \<open>UPDATE fact SET view_count = ? WHERE id = ?\<close>, with
  the value computed in Python from the counter as it was loaded.
\<close>

definition commit_view_count :: "bool \<Rightarrow> db \<Rightarrow> int \<Rightarrow> int \<Rightarrow> db_error + db" where
  "commit_view_count refused s i v =
     (if refused then Inl OperationalError
      else Inr (s\<lparr>facts :=
             map (\<lambda>x. if f_id x = i then x\<lparr>f_view_count := v\<rparr> else x) (facts s)\<rparr>))"

text \<open>INSERT of a User under the two \<open>unique=True\<close> columns.\<close>

definition commit_add_user ::
  "bool \<Rightarrow> db \<Rightarrow> string \<Rightarrow> string \<Rightarrow> string \<Rightarrow> datetime \<Rightarrow> db_error + db" where
  "commit_add_user refused s name mail hash t =
     (if refused then Inl OperationalError
      else if (\<exists>x \<in> set (users s). u_username x = name \<or> u_email x = mail)
      then Inl IntegrityError
      else Inr (s\<lparr>users := users s @
             [\<lparr>u_id = next_id (map u_id (users s)), u_username = name, u_email = mail,
               u_password_hash = hash, u_is_active = True, u_created_at = t\<rparr>]\<rparr>))"

definition commit_add_usage ::
  "bool \<Rightarrow> db \<Rightarrow> string \<Rightarrow> string \<Rightarrow> string \<Rightarrow> int option \<Rightarrow> int \<Rightarrow> int \<Rightarrow> datetime
     \<Rightarrow> db_error + db" where
  "commit_add_usage refused s ep m ip uid code ms t =
     (if refused then Inl OperationalError
      else Inr (s\<lparr>usages := usages s @
            [\<lparr>au_id = next_id (map au_id (usages s)), au_endpoint = ep, au_method = m,
              au_ip_address = ip, au_user_id = uid, au_response_code = code,
              au_response_time_ms = ms, au_timestamp = t\<rparr>]\<rparr>))"

text \<open>INSERT of one seeded Fact: the column defaults give an active fact with no views.\<close>

definition add_fact :: "datetime \<Rightarrow> db \<Rightarrow> string \<times> string \<Rightarrow> db" where
  "add_fact t s cc =
     s\<lparr>facts := facts s @
        [\<lparr>f_id = next_id (map f_id (facts s)), f_content = fst cc, f_category = snd cc,
          f_is_active = True, f_created_at = t, f_view_count = 0\<rparr>]\<rparr>"

section \<open>The request's environment\<close>

text \<open>
  What a request reads besides the store: the caller's address, the identity its token
  resolves to, the clock, the two readings of \<open>time.time()\<close>, the random draw of the
  store, and whether the store refuses the view's commit and the recorder's commit.
\<close>

record ctx =
  remote_addr :: string
  jwt_identity :: "int option"
  utcnow :: datetime
  today :: datetime
  start_time :: int
  end_time :: int
  rnd :: nat
  commit_raises :: bool
  usage_commit_raises :: bool

text \<open>
  The libraries app.py and models.py call: bcrypt's \<open>checkpw\<close> and \<open>hashpw\<close> (the salt is
  the draw), which return or raise, and flask_jwt_extended's \<open>create_access_token\<close>.
\<close>

record lib =
  checkpw :: "string \<Rightarrow> string \<Rightarrow> exn + bool"
  hashpw :: "string \<Rightarrow> nat \<Rightarrow> exn + string"
  create_access_token :: "int \<Rightarrow> string"

section \<open>models.py: methods\<close>

text \<open>
  \<open>check_password\<close> (line 20) and \<open>set_password\<close> (line 17) call \<open>password.encode\<close>: a
  password that is not a string has no such method, and the call raises.
\<close>

definition check_password :: "lib \<Rightarrow> user \<Rightarrow> json \<Rightarrow> exn + bool" where
  "check_password l u password =
     (case password of
        JStr p \<Rightarrow> checkpw l p (u_password_hash u)
      | _ \<Rightarrow> Inl (Exn ''AttributeError''))"

definition set_password :: "lib \<Rightarrow> nat \<Rightarrow> json \<Rightarrow> exn + string" where
  "set_password l salt password =
     (case password of
        JStr p \<Rightarrow> hashpw l p salt
      | _ \<Rightarrow> Inl (Exn ''AttributeError''))"

definition user_to_dict :: "user \<Rightarrow> json" where
  "user_to_dict u = JObj
     [(''id'', JInt (u_id u)), (''username'', JStr (u_username u)),
      (''email'', JStr (u_email u)), (''is_active'', JBool (u_is_active u)),
      (''created_at'', JIso (u_created_at u))]"

definition to_dict :: "fact \<Rightarrow> json" where
  "to_dict x = JObj
     [(''id'', JInt (f_id x)), (''content'', JStr (f_content x)),
      (''category'', JStr (f_category x)), (''view_count'', JInt (f_view_count x)),
      (''created_at'', JIso (f_created_at x))]"

definition err :: "string \<Rightarrow> json" where
  "err msg = JObj [(''error'', JStr msg)]"

section \<open>app.py: the usage recorder\<close>

text \<open>
  \<open>track_usage\<close> (lines 31-70) wraps a view \<open>f\<close>. \<open>get_jwt_identity()\<close> gives the identity
  on a route under \<open>@jwt_required()\<close> and raises on any other route, where the recorded
  user id stays \<open>None\<close>. A view either returns or raises, and leaves the store as its
  commits made it. The recorder keeps the view's response, or replaces a raise by the
  generic tuple; the code it records is the response's \<open>status_code\<close> attribute when it
  has one and 200 otherwise, or 500 after a raise. A refused commit of the usage row is
  rolled back and changes nothing for the caller.
\<close>

definition track_usage ::
  "ctx \<Rightarrow> bool \<Rightarrow> string \<Rightarrow> string \<Rightarrow> (db \<Rightarrow> (exn + response) \<times> db) \<Rightarrow> db \<Rightarrow> response \<times> db" where
  "track_usage c protected ep m f s =
     (let user_id = (if protected then jwt_identity c else None);
          (result, s1) = f s;
          (response, response_code) =
             (case result of
                Inr r \<Rightarrow> (r, (case status_code_attr r of Some sc \<Rightarrow> sc | None \<Rightarrow> 200))
              | Inl e \<Rightarrow> (Tuple (err ''Internal server error'') 500, 500));
          response_time = (end_time c - start_time c) * 1000
      in (case commit_add_usage (usage_commit_raises c) s1 ep m (remote_addr c) user_id
                 response_code response_time (utcnow c) of
            Inr s2 \<Rightarrow> (response, s2)
          | Inl e \<Rightarrow> (response, s1)))"

text \<open>
  \<open>@jwt_required()\<close> is the outer decorator: without an identity the request is answered
  401 by the library and neither the recorder nor the view runs.
\<close>

definition jwt_required :: "ctx \<Rightarrow> (int \<Rightarrow> db \<Rightarrow> response \<times> db) \<Rightarrow> db \<Rightarrow> response \<times> db" where
  "jwt_required c f s =
     (case jwt_identity c of
        None \<Rightarrow> (Tuple (JObj [(''msg'', JStr ''Missing Authorization Header'')]) 401, s)
      | Some uid \<Rightarrow> f uid s)"

section \<open>app.py: seeding\<close>

definition facts_data :: "(string \<times> string) list" where
  "facts_data =
     [(''Honey never spoils. Archaeologists have found pots of honey in ancient Egyptian tombs that are over 3,000 years old and still perfectly edible.'', ''food''),
      (''A group of flamingos is called a 'flamboyance'.'', ''animals''),
      (''Octopuses have three hearts and blue blood.'', ''animals''),
      (''Bananas are berries, but strawberries aren't.'', ''food''),
      (''A single cloud can weigh more than a million pounds.'', ''nature''),
      (''Sharks have existed longer than trees.'', ''animals''),
      (''The human brain uses about 20% of the body's total energy.'', ''science''),
      (''There are more possible games of chess than atoms in the observable universe.'', ''science''),
      (''Wombat poop is cube-shaped.'', ''animals''),
      (''The shortest war in history lasted only 38-45 minutes.'', ''history''),
      (''The Great Wall of China isn't visible from space with the naked eye.'', ''history''),
      (''A group of owls is called a parliament.'', ''animals''),
      (''Cleopatra lived closer to the Moon landing than to the construction of the Great Pyramid.'', ''history''),
      (''The longest word in English has 189,819 letters and takes over 3 hours to pronounce.'', ''language''),
      (''Your stomach gets an entirely new lining every 3-5 days.'', ''science'')]"

text \<open>\<open>seed_data\<close> (lines 72-99); a refused commit is rolled back.\<close>

definition seed_data :: "bool \<Rightarrow> datetime \<Rightarrow> db \<Rightarrow> db" where
  "seed_data refused t s =
     (if length (facts s) = 0
      then (if refused then s else foldl (add_fact t) s facts_data)
      else s)"

section \<open>app.py: the views\<close>

text \<open>A view that returns, and the store it leaves.\<close>

definition returned :: "response \<times> db \<Rightarrow> (exn + response) \<times> db" where
  "returned rs = (Inr (fst rs), snd rs)"

text \<open>
  \<open>Fact.query.filter_by(is_active=True)\<close>, narrowed by \<open>category\<close> when the argument is
  truthy (present and not the empty string).
\<close>

definition active_facts :: "db \<Rightarrow> string option \<Rightarrow> fact list" where
  "active_facts s category =
     (let query = filter f_is_active (facts s)
      in (case category of
            None \<Rightarrow> query
          | Some cat \<Rightarrow> if cat \<noteq> [] then filter (\<lambda>x. f_category x = cat) query else query))"

definition home :: "ctx \<Rightarrow> db \<Rightarrow> response" where
  "home c s =
     (let fact_data = (case random_first (rnd c) (filter f_is_active (facts s)) of
                         Some x \<Rightarrow> to_dict x
                       | None \<Rightarrow> JStr ''No facts available'')
      in Response (JObj
           [(''message'', JStr ''Welcome to the Enhanced Random Facts API''),
            (''fact'', fact_data),
            (''endpoints'', JObj
               [(''authentication'', JList [JStr ''/register'', JStr ''/login'']),
                (''facts'', JList [JStr ''/facts'', JStr ''/facts/random'',
                                   JStr ''/facts/category/<category>'']),
                (''user'', JList [JStr ''/favorites'', JStr ''/profile'']),
                (''admin'', JList [JStr ''/admin/stats'', JStr ''/admin/facts''])])]))"

definition health_check :: "ctx \<Rightarrow> db \<Rightarrow> response" where
  "health_check c s =
     Response (JObj
       [(''status'', JStr ''healthy''), (''database'', JStr ''healthy''),
        (''timestamp'', JIso (utcnow c)), (''message'', JStr ''Service is running'')])"

text \<open>
  \<open>register\<close> (lines 154-175): \<open>None\<close> stands for a body that is empty or lacks one of
  the three keys; otherwise the body carries the username and the email, both strings,
  and the password, any JSON value.
\<close>

definition register ::
  "lib \<Rightarrow> ctx \<Rightarrow> db \<Rightarrow> (string \<times> string \<times> json) option \<Rightarrow> (exn + response) \<times> db" where
  "register l c s data =
     (case data of
        None \<Rightarrow> (Inr (Tuple (err ''Missing required fields'') 400), s)
      | Some (name, mail, password) \<Rightarrow>
          if first (filter (\<lambda>x. u_username x = name) (users s)) \<noteq> None
          then (Inr (Tuple (err ''Username already exists'') 400), s)
          else if first (filter (\<lambda>x. u_email x = mail) (users s)) \<noteq> None
          then (Inr (Tuple (err ''Email already exists'') 400), s)
          else (case set_password l (rnd c) password of
                  Inl e \<Rightarrow> (Inl e, s)
                | Inr hash \<Rightarrow>
                   (case commit_add_user (commit_raises c) s name mail hash (utcnow c) of
                      Inr s' \<Rightarrow>
                        (Inr (Tuple (JObj
                           [(''message'', JStr ''User created successfully''),
                            (''user'', (case first (filter (\<lambda>x. u_username x = name) (users s')) of
                                         Some u \<Rightarrow> user_to_dict u | None \<Rightarrow> JNull))]) 201), s')
                    | Inl e \<Rightarrow> (Inr (Tuple (err ''Failed to create user'') 500), s))))"

text \<open>
  \<open>login\<close> (lines 180-192): \<open>None\<close> stands for a body that is empty or lacks a key;
  otherwise the body carries the username, a string, and the password, any JSON value.
  Line 188 calls \<open>check_password\<close> for the user found, before it reads \<open>is_active\<close>, and
  outside any \<open>try\<close>.
\<close>

definition login :: "lib \<Rightarrow> db \<Rightarrow> (string \<times> json) option \<Rightarrow> exn + response" where
  "login l s data =
     (case data of
        None \<Rightarrow> Inr (Tuple (err ''Missing username or password'') 400)
      | Some (name, password) \<Rightarrow>
          (case first (filter (\<lambda>x. u_username x = name) (users s)) of
             Some u \<Rightarrow>
               (case check_password l u password of
                  Inl e \<Rightarrow> Inl e
                | Inr verified \<Rightarrow>
                    if verified \<and> u_is_active u
                    then Inr (Response (JObj
                           [(''access_token'', JStr (create_access_token l (u_id u))),
                            (''user'', user_to_dict u)]))
                    else Inr (Tuple (err ''Invalid credentials'') 401))
           | None \<Rightarrow> Inr (Tuple (err ''Invalid credentials'') 401)))"

text \<open>
  \<open>query.paginate(page, per_page, error_out=False)\<close> of Flask-SQLAlchemy 3: a page below
  1 becomes 1, a page size below 1 becomes 20, and the items are read with
  \<open>LIMIT per_page OFFSET (page - 1) * per_page\<close>, both sent as query parameters.
\<close>

record pagination =
  p_items :: "fact list"
  p_pages :: int
  p_total :: int

definition page_offset :: "int \<Rightarrow> int \<Rightarrow> int" where
  "page_offset page per_page =
     ((if page < 1 then 1 else page) - 1) * (if per_page < 1 then 20 else per_page)"

definition paginate :: "fact list \<Rightarrow> int \<Rightarrow> int \<Rightarrow> exn + pagination" where
  "paginate query page per_page =
     (let per_page' = (if per_page < 1 then 20 else per_page);
          offset = page_offset page per_page;
          total = int (length query)
      in if \<not> (in_int64 per_page' \<and> in_int64 offset) then Inl (Exn ''OverflowError'')
         else Inr \<lparr>p_items = take (nat per_page') (drop (nat offset) query),
                   p_pages = (if total = 0 then 0 else - ((- total) div per_page')),
                   p_total = total\<rparr>)"

text \<open>
  \<open>get_facts\<close> (lines 196-215): \<open>request.args.get(name, default, type=int)\<close> gives the
  default when the argument is absent or is not an integer, which is \<open>None\<close> here.
\<close>

definition get_facts :: "db \<Rightarrow> int option \<Rightarrow> int option \<Rightarrow> string option \<Rightarrow> exn + response" where
  "get_facts s page_arg per_page_arg category =
     (let page = (case page_arg of None \<Rightarrow> 1 | Some p \<Rightarrow> p);
          per_page = min (case per_page_arg of None \<Rightarrow> 10 | Some n \<Rightarrow> n) 50
      in (case paginate (active_facts s category) page per_page of
            Inl e \<Rightarrow> Inl e
          | Inr fs \<Rightarrow>
              Inr (Response (JObj
                [(''facts'', JList (map to_dict (p_items fs))),
                 (''pagination'', JObj
                    [(''page'', JInt page), (''pages'', JInt (p_pages fs)),
                     (''per_page'', JInt per_page), (''total'', JInt (p_total fs))])]))))"

text \<open>
  \<open>random_fact\<close> (lines 219-237). The view reads a fact (line 226), adds one to the
  counter it loaded (line 231) and commits that value (line 233); a refused commit is
  rolled back and the view goes on. After the commit or the rollback the loaded fact is
  expired, so \<open>fact.to_dict()\<close> reads the row again; a row that is gone makes the ORM raise.
  Other requests may commit between the read and the commit: \<open>between\<close> is what the store
  has become when the commit runs, and it is the identity for a request served alone.
\<close>

definition random_fact_between ::
  "ctx \<Rightarrow> (db \<Rightarrow> db) \<Rightarrow> db \<Rightarrow> string option \<Rightarrow> (exn + response) \<times> db" where
  "random_fact_between c between s category =
     (case random_first (rnd c) (active_facts s category) of
        None \<Rightarrow> (Inr (Tuple (err ''No facts found'') 404), between s)
      | Some x \<Rightarrow>
          (let s' = (case commit_view_count (commit_raises c) (between s) (f_id x)
                            (f_view_count x + 1) of
                       Inr s2 \<Rightarrow> s2 | Inl e \<Rightarrow> between s)
           in (case refresh s' x of
                 Some x' \<Rightarrow> (Inr (Response (to_dict x')), s')
               | None \<Rightarrow> (Inl (Exn ''ObjectDeletedError''), s'))))"

definition random_fact :: "ctx \<Rightarrow> db \<Rightarrow> string option \<Rightarrow> (exn + response) \<times> db" where
  "random_fact c s category = random_fact_between c (\<lambda>s. s) s category"

definition get_categories :: "db \<Rightarrow> response" where
  "get_categories s =
     Response (JObj [(''categories'',
        JList (map JStr (remdups (map f_category (filter f_is_active (facts s))))))])"

text \<open>
  \<open>manage_favorites\<close>, GET (lines 251-256): the join of Favorite and Fact on the foreign
  key, filtered by the caller and by \<open>Fact.is_active\<close>.
\<close>

definition favorites_join :: "db \<Rightarrow> int \<Rightarrow> (favorite \<times> fact) list" where
  "favorites_join s user_id =
     [(r, x). r \<leftarrow> favorites s, x \<leftarrow> facts s,
              f_id x = fav_fact_id r \<and> fav_user_id r = user_id \<and> f_is_active x]"

definition manage_favorites_get :: "db \<Rightarrow> int \<Rightarrow> response" where
  "manage_favorites_get s user_id =
     Response (JList (map (\<lambda>(r, x). to_dict x) (favorites_join s user_id)))"

text \<open>
  \<open>manage_favorites\<close>, POST (lines 258-278), in the two parts its text has: the checks of
  lines 259-272, which read the store and end in a raise, in an early return or in a row
  to insert, and the commit of lines 273-278. \<open>None\<close> stands for a body that is empty or
  has no \<open>fact_id\<close>; otherwise the body carries an integer. The two queries of lines 263
  and 267 are outside any \<open>try\<close>. Another request may commit between the two parts:
  \<open>between\<close> is what the store has become when the commit runs, and it is the identity for
  a request served alone.
\<close>

definition favorites_post_check ::
  "db \<Rightarrow> int \<Rightarrow> int option \<Rightarrow> exn + (response + int \<times> int)" where
  "favorites_post_check s user_id data =
     (case data of
        None \<Rightarrow> Inr (Inl (Tuple (err ''Missing fact_id'') 400))
      | Some fact_id \<Rightarrow>
          (case Fact_query_get s fact_id of
             Inl e \<Rightarrow> Inl e
           | Inr None \<Rightarrow> Inr (Inl (Tuple (err ''Fact not found'') 404))
           | Inr (Some x) \<Rightarrow>
               if \<not> f_is_active x then Inr (Inl (Tuple (err ''Fact not found'') 404))
               else (case Favorite_filter_by s user_id fact_id of
                       Inl e \<Rightarrow> Inl e
                     | Inr rows \<Rightarrow>
                        (case first rows of
                           Some existing \<Rightarrow> Inr (Inl (Tuple (err ''Already in favorites'') 400))
                         | None \<Rightarrow> Inr (Inr (user_id, fact_id))))))"

definition favorites_post_commit :: "ctx \<Rightarrow> db \<Rightarrow> int \<times> int \<Rightarrow> response \<times> db" where
  "favorites_post_commit c s p =
     (case commit_add_favorite (commit_raises c) s (fst p) (snd p) (utcnow c) of
        Inr s' \<Rightarrow> (Tuple (JObj [(''message'', JStr ''Added to favorites'')]) 201, s')
      | Inl e \<Rightarrow> (Tuple (err ''Failed to add favorite'') 500, s))"

definition manage_favorites_post_between ::
  "ctx \<Rightarrow> (db \<Rightarrow> db) \<Rightarrow> db \<Rightarrow> int \<Rightarrow> int option \<Rightarrow> (exn + response) \<times> db" where
  "manage_favorites_post_between c between s user_id data =
     (case favorites_post_check s user_id data of
        Inl e \<Rightarrow> (Inl e, between s)
      | Inr (Inl r) \<Rightarrow> (Inr r, between s)
      | Inr (Inr p) \<Rightarrow> returned (favorites_post_commit c (between s) p))"

definition manage_favorites_post ::
  "ctx \<Rightarrow> db \<Rightarrow> int \<Rightarrow> int option \<Rightarrow> (exn + response) \<times> db" where
  "manage_favorites_post c s user_id data =
     manage_favorites_post_between c (\<lambda>s. s) s user_id data"

text \<open>
  \<open>manage_favorites\<close>, DELETE (lines 280-295); the query of line 285 is outside the
  \<open>try\<close>.
\<close>

definition manage_favorites_delete ::
  "ctx \<Rightarrow> db \<Rightarrow> int \<Rightarrow> int option \<Rightarrow> (exn + response) \<times> db" where
  "manage_favorites_delete c s user_id data =
     (case data of
        None \<Rightarrow> (Inr (Tuple (err ''Missing fact_id'') 400), s)
      | Some fact_id \<Rightarrow>
          (case Favorite_filter_by s user_id fact_id of
             Inl e \<Rightarrow> (Inl e, s)
           | Inr rows \<Rightarrow>
              (case first rows of
                 None \<Rightarrow> (Inr (Tuple (err ''Not in favorites'') 404), s)
               | Some r \<Rightarrow>
                   (case commit_delete_favorite (commit_raises c) s r of
                      Inr s' \<Rightarrow>
                        (Inr (Response (JObj [(''message'', JStr ''Removed from favorites'')])), s')
                    | Inl e \<Rightarrow> (Inr (Tuple (err ''Failed to remove favorite'') 500), s)))))"

definition get_profile :: "db \<Rightarrow> int \<Rightarrow> response" where
  "get_profile s user_id =
     (case User_query_get s user_id of
        None \<Rightarrow> Tuple (err ''User not found'') 404
      | Some u \<Rightarrow>
          Response (JObj
            [(''user'', user_to_dict u),
             (''favorites_count'',
                JInt (int (length (filter (\<lambda>r. fav_user_id r = user_id) (favorites s)))))]))"

definition admin_stats :: "ctx \<Rightarrow> db \<Rightarrow> response" where
  "admin_stats c s =
     Response (JObj
       [(''total_users'', JInt (int (length (users s)))),
        (''active_users'', JInt (int (length (filter u_is_active (users s))))),
        (''total_facts'', JInt (int (length (facts s)))),
        (''active_facts'', JInt (int (length (filter f_is_active (facts s))))),
        (''total_favorites'', JInt (int (length (favorites s)))),
        (''api_calls_today'',
           JInt (int (length (filter (\<lambda>a. today c \<le> au_timestamp a) (usages s)))))])"

section \<open>The routes\<close>

text \<open>
  One constructor per route and method, with the arguments the view reads. The rate
  limiter runs before a view and touches no table; it is not modelled.
\<close>

datatype operation =
    GetHome
  | GetHealth
  | PostRegister "(string \<times> string \<times> json) option"
  | PostLogin "(string \<times> json) option"
  | GetFacts "int option" "int option" "string option"
  | GetRandomFact "string option"
  | GetCategories
  | GetFavorites
  | PostFavorites "int option"
  | DeleteFavorites "int option"
  | GetProfile
  | GetAdminStats

fun serve :: "lib \<Rightarrow> ctx \<Rightarrow> operation \<Rightarrow> db \<Rightarrow> response \<times> db" where
  "serve l c GetHome s =
     track_usage c False ''home'' ''GET'' (\<lambda>s. returned (home c s, s)) s"
| "serve l c GetHealth s =
     track_usage c False ''health_check'' ''GET'' (\<lambda>s. returned (health_check c s, s)) s"
| "serve l c (PostRegister data) s =
     track_usage c False ''register'' ''POST'' (\<lambda>s. register l c s data) s"
| "serve l c (PostLogin data) s =
     track_usage c False ''login'' ''POST'' (\<lambda>s. (login l s data, s)) s"
| "serve l c (GetFacts page per_page category) s =
     track_usage c False ''get_facts'' ''GET''
       (\<lambda>s. (get_facts s page per_page category, s)) s"
| "serve l c (GetRandomFact category) s =
     track_usage c False ''random_fact'' ''GET'' (\<lambda>s. random_fact c s category) s"
| "serve l c GetCategories s =
     track_usage c False ''get_categories'' ''GET'' (\<lambda>s. returned (get_categories s, s)) s"
| "serve l c GetFavorites s =
     jwt_required c (\<lambda>uid. track_usage c True ''manage_favorites'' ''GET''
       (\<lambda>s. returned (manage_favorites_get s uid, s))) s"
| "serve l c (PostFavorites data) s =
     jwt_required c (\<lambda>uid. track_usage c True ''manage_favorites'' ''POST''
       (\<lambda>s. manage_favorites_post c s uid data)) s"
| "serve l c (DeleteFavorites data) s =
     jwt_required c (\<lambda>uid. track_usage c True ''manage_favorites'' ''DELETE''
       (\<lambda>s. manage_favorites_delete c s uid data)) s"
| "serve l c GetProfile s =
     jwt_required c (\<lambda>uid. track_usage c True ''get_profile'' ''GET''
       (\<lambda>s. returned (get_profile s uid, s))) s"
| "serve l c GetAdminStats s =
     jwt_required c (\<lambda>uid. track_usage c True ''admin_stats'' ''GET''
       (\<lambda>s. returned (admin_stats c s, s))) s"

text \<open>The entry \<open>k\<close> of the \<open>pagination\<close> object of a response.\<close>

definition pagination_field :: "string \<Rightarrow> response \<Rightarrow> json option" where
  "pagination_field k r = (case field ''pagination'' (body r) of None \<Rightarrow> None | Some pg \<Rightarrow> field k pg)"


section \<open>Inputs for the concrete checks\<close>

definition example_ctx :: ctx where
  "example_ctx = \<lparr>remote_addr = ''127.0.0.1'', jwt_identity = Some 7, utcnow = 100, today = 0,
         start_time = 5, end_time = 6, rnd = 0, commit_raises = False,
         usage_commit_raises = False\<rparr>"

definition example_db :: db where
  "example_db = \<lparr>users = [],
          facts = [\<lparr>f_id = 1, f_content = ''a'', f_category = ''food'', f_is_active = True,
                    f_created_at = 0, f_view_count = 0\<rparr>,
                   \<lparr>f_id = 2, f_content = ''b'', f_category = ''test'', f_is_active = False,
                    f_created_at = 0, f_view_count = 0\<rparr>],
          favorites = [], usages = []\<rparr>"

text \<open>
  A stand-in for bcrypt that raises \<open>ValueError\<close> for a password of more than 72 bytes, as
  its current release does.
\<close>

definition example_lib :: lib where
  "example_lib = \<lparr>checkpw = (\<lambda>password hash.
                      if 72 < length password then Inl (Exn ''ValueError'')
                      else Inr (hash = ''$'' @ password)),
                   hashpw = (\<lambda>password salt.
                      if 72 < length password then Inl (Exn ''ValueError'')
                      else Inr (''$'' @ password)),
                   create_access_token = (\<lambda>identity. ''jwt'')\<rparr>"

definition example_users :: db where
  "example_users = \<lparr>users = [\<lparr>u_id = 7, u_username = ''alice'', u_email = ''alice@x.com'',
                               u_password_hash = ''$pw123456'', u_is_active = True,
                               u_created_at = 10\<rparr>,
                              \<lparr>u_id = 8, u_username = ''bob'', u_email = ''bob@x.com'',
                               u_password_hash = ''$secret'', u_is_active = False,
                               u_created_at = 11\<rparr>],
                     facts = [], favorites = [], usages = []\<rparr>"

definition example_favs :: db where
  "example_favs = example_db\<lparr>favorites :=
      [\<lparr>fav_id = 1, fav_user_id = 7, fav_fact_id = 1, fav_created_at = 20\<rparr>,
       \<lparr>fav_id = 2, fav_user_id = 7, fav_fact_id = 2, fav_created_at = 21\<rparr>]\<rparr>"

text \<open>The store \<open>create_app\<close> leaves: the tables created and seeded.\<close>

definition seeded_db :: db where
  "seeded_db = seed_data False 0 empty_db"

section \<open>Queries and fresh identifiers\<close>

lemma first_None_iff: "first xs = None \<longleftrightarrow> xs = []"
  by (cases xs) (simp_all add: first_def)

lemma first_Some_mem: "first xs = Some x \<Longrightarrow> x \<in> set xs"
  by (cases xs) (simp_all add: first_def)

lemma foldr_max_ge: "i \<in> set ids \<Longrightarrow> i \<le> foldr max ids (0::int)"
  by (induction ids) auto

lemma next_id_gt: "i \<in> set ids \<Longrightarrow> i < next_id ids"
  using foldr_max_ge [of i ids] by (simp add: next_id_def)

lemma filter_pair_Nil:
  "filter (\<lambda>r. fav_user_id r = u \<and> fav_fact_id r = f) rs = []
     \<longleftrightarrow> \<not> (\<exists>r \<in> set rs. fav_user_id r = u \<and> fav_fact_id r = f)"
  by (auto simp: filter_empty_conv)

lemma find_id_None: "find (\<lambda>x. f_id x = f) xs = None \<longleftrightarrow> (\<forall>x \<in> set xs. f_id x \<noteq> f)"
  by (auto simp: find_None_iff)

section \<open>Favorites: add\<close>

lemma post_not_found:
  assumes "in_int64 f"
    and "(\<forall>x \<in> set (facts s). f_id x \<noteq> f)
         \<or> (\<exists>x. find (\<lambda>x. f_id x = f) (facts s) = Some x \<and> \<not> f_is_active x)"
  shows "manage_favorites_post c s u (Some f) = (Inr (Tuple (err ''Fact not found'') 404), s)"
  using assms
  by (auto simp: manage_favorites_post_def manage_favorites_post_between_def
      favorites_post_check_def Fact_query_get_def find_id_None [symmetric])

lemma post_exists:
  assumes "in_int64 f"
    and "\<exists>x. find (\<lambda>x. f_id x = f) (facts s) = Some x \<and> f_is_active x"
    and "\<exists>r \<in> set (favorites s). fav_user_id r = u \<and> fav_fact_id r = f"
  shows "manage_favorites_post c s u (Some f)
           = (Inr (Tuple (err ''Already in favorites'') 400), s)"
proof -
  from assms(3) have "filter (\<lambda>r. fav_user_id r = u \<and> fav_fact_id r = f) (favorites s) \<noteq> []"
    by (simp add: filter_pair_Nil)
  then have "first (filter (\<lambda>r. fav_user_id r = u \<and> fav_fact_id r = f) (favorites s)) \<noteq> None"
    by (simp add: first_None_iff)
  with assms(1,2) show ?thesis
    by (auto simp: manage_favorites_post_def manage_favorites_post_between_def
        favorites_post_check_def Fact_query_get_def Favorite_filter_by_def)
qed

lemma post_check_passes:
  assumes "in_int64 f"
    and "\<exists>x. find (\<lambda>x. f_id x = f) (facts s) = Some x \<and> f_is_active x"
    and "\<not> (\<exists>r \<in> set (favorites s). fav_user_id r = u \<and> fav_fact_id r = f)"
  shows "favorites_post_check s u (Some f) = Inr (Inr (u, f))"
proof -
  from assms(3) have "filter (\<lambda>r. fav_user_id r = u \<and> fav_fact_id r = f) (favorites s) = []"
    by (simp add: filter_pair_Nil)
  with assms(1,2) show ?thesis
    by (auto simp: favorites_post_check_def Fact_query_get_def Favorite_filter_by_def first_def)
qed

lemma post_created:
  assumes "in_int64 f"
    and "\<exists>x. find (\<lambda>x. f_id x = f) (facts s) = Some x \<and> f_is_active x"
    and "\<not> (\<exists>r \<in> set (favorites s). fav_user_id r = u \<and> fav_fact_id r = f)"
    and "\<not> commit_raises c"
  shows "manage_favorites_post c s u (Some f)
           = (Inr (Tuple (JObj [(''message'', JStr ''Added to favorites'')]) 201),
              s\<lparr>favorites := favorites s @
                  [\<lparr>fav_id = next_id (map fav_id (favorites s)), fav_user_id = u,
                    fav_fact_id = f, fav_created_at = utcnow c\<rparr>]\<rparr>)"
proof -
  from assms(3) have "filter (\<lambda>r. fav_user_id r = u \<and> fav_fact_id r = f) (favorites s) = []"
    by (simp add: filter_pair_Nil)
  with assms(4) post_check_passes [OF assms(1-3)] show ?thesis
    by (simp add: manage_favorites_post_def manage_favorites_post_between_def
        favorites_post_commit_def commit_add_favorite_def returned_def)
qed

lemma post_refused:
  assumes "in_int64 f"
    and "\<exists>x. find (\<lambda>x. f_id x = f) (facts s) = Some x \<and> f_is_active x"
    and "\<not> (\<exists>r \<in> set (favorites s). fav_user_id r = u \<and> fav_fact_id r = f)"
    and "commit_raises c"
  shows "manage_favorites_post c s u (Some f)
           = (Inr (Tuple (err ''Failed to add favorite'') 500), s)"
  using assms(4) post_check_passes [OF assms(1-3)]
  by (simp add: manage_favorites_post_def manage_favorites_post_between_def
      favorites_post_commit_def commit_add_favorite_def returned_def)

text \<open>
  Claim C2, as amended. For every user \<open>u\<close> and every fact id \<open>f\<close> within the store's
  64-bit range, the add request served alone answers 404 \<open>Fact not found\<close> and leaves the
  store alone when no fact has id \<open>f\<close> or the fact is inactive; answers 400
  \<open>Already in favorites\<close> and leaves the store alone when the fact is active and a Favorite
  row for \<open>(u, f)\<close> exists; and otherwise, when the store accepts the commit, answers 201
  and appends exactly one Favorite row, which is for \<open>(u, f)\<close>, so that one row for the
  pair exists afterwards and no other table changes, and when the store refuses the commit,
  rolls back, answers 500 \<open>Failed to add favorite\<close> and leaves the store alone. The claim as
  stated fails for the id \<open>2 ^ 63\<close>, where the lookup raises and the caller gets the
  generic 500, and for a refused commit.
\<close>

theorem add_outcomes:
  "in_int64 f \<longrightarrow>
     ((\<forall>x \<in> set (facts s). f_id x \<noteq> f)
        \<or> (\<exists>x. find (\<lambda>x. f_id x = f) (facts s) = Some x \<and> \<not> f_is_active x)
      \<longrightarrow> manage_favorites_post c s u (Some f) = (Inr (Tuple (err ''Fact not found'') 404), s))
   \<and> ((\<exists>x. find (\<lambda>x. f_id x = f) (facts s) = Some x \<and> f_is_active x)
        \<and> (\<exists>r \<in> set (favorites s). fav_user_id r = u \<and> fav_fact_id r = f)
      \<longrightarrow> manage_favorites_post c s u (Some f)
            = (Inr (Tuple (err ''Already in favorites'') 400), s))
   \<and> ((\<exists>x. find (\<lambda>x. f_id x = f) (facts s) = Some x \<and> f_is_active x)
        \<and> \<not> (\<exists>r \<in> set (favorites s). fav_user_id r = u \<and> fav_fact_id r = f)
        \<and> \<not> commit_raises c
      \<longrightarrow> (\<exists>s' r. manage_favorites_post c s u (Some f)
                    = (Inr (Tuple (JObj [(''message'', JStr ''Added to favorites'')]) 201), s')
              \<and> favorites s' = favorites s @ [r] \<and> fav_user_id r = u \<and> fav_fact_id r = f
              \<and> users s' = users s \<and> facts s' = facts s \<and> usages s' = usages s
              \<and> length (filter (\<lambda>r. fav_user_id r = u \<and> fav_fact_id r = f) (favorites s')) = 1))
   \<and> ((\<exists>x. find (\<lambda>x. f_id x = f) (facts s) = Some x \<and> f_is_active x)
        \<and> \<not> (\<exists>r \<in> set (favorites s). fav_user_id r = u \<and> fav_fact_id r = f)
        \<and> commit_raises c
      \<longrightarrow> manage_favorites_post c s u (Some f)
            = (Inr (Tuple (err ''Failed to add favorite'') 500), s))"
proof (intro impI conjI)
  assume i: "in_int64 f"
  {
    assume "(\<forall>x \<in> set (facts s). f_id x \<noteq> f)
        \<or> (\<exists>x. find (\<lambda>x. f_id x = f) (facts s) = Some x \<and> \<not> f_is_active x)"
    with i show "manage_favorites_post c s u (Some f) = (Inr (Tuple (err ''Fact not found'') 404), s)"
      by (rule post_not_found)
  next
    assume "(\<exists>x. find (\<lambda>x. f_id x = f) (facts s) = Some x \<and> f_is_active x)
        \<and> (\<exists>r \<in> set (favorites s). fav_user_id r = u \<and> fav_fact_id r = f)"
    with i show "manage_favorites_post c s u (Some f)
            = (Inr (Tuple (err ''Already in favorites'') 400), s)"
      by (simp add: post_exists)
  next
    assume a: "(\<exists>x. find (\<lambda>x. f_id x = f) (facts s) = Some x \<and> f_is_active x)
        \<and> \<not> (\<exists>r \<in> set (favorites s). fav_user_id r = u \<and> fav_fact_id r = f)
        \<and> \<not> commit_raises c"
    then have n: "filter (\<lambda>r. fav_user_id r = u \<and> fav_fact_id r = f) (favorites s) = []"
      by (simp add: filter_pair_Nil)
    from i a have "manage_favorites_post c s u (Some f)
           = (Inr (Tuple (JObj [(''message'', JStr ''Added to favorites'')]) 201),
              s\<lparr>favorites := favorites s @
                  [\<lparr>fav_id = next_id (map fav_id (favorites s)), fav_user_id = u,
                    fav_fact_id = f, fav_created_at = utcnow c\<rparr>]\<rparr>)"
      by (simp add: post_created)
    with n show "\<exists>s' r. manage_favorites_post c s u (Some f)
                    = (Inr (Tuple (JObj [(''message'', JStr ''Added to favorites'')]) 201), s')
              \<and> favorites s' = favorites s @ [r] \<and> fav_user_id r = u \<and> fav_fact_id r = f
              \<and> users s' = users s \<and> facts s' = facts s \<and> usages s' = usages s
              \<and> length (filter (\<lambda>r. fav_user_id r = u \<and> fav_fact_id r = f) (favorites s')) = 1"
      by simp
  next
    assume "(\<exists>x. find (\<lambda>x. f_id x = f) (facts s) = Some x \<and> f_is_active x)
        \<and> \<not> (\<exists>r \<in> set (favorites s). fav_user_id r = u \<and> fav_fact_id r = f)
        \<and> commit_raises c"
    with i show "manage_favorites_post c s u (Some f)
            = (Inr (Tuple (err ''Failed to add favorite'') 500), s)"
      by (simp add: post_refused)
  }
qed

theorem add_outcomes_counterexample:
  "find (\<lambda>x. f_id x = 2 ^ 63) (facts example_db) = None
   \<and> manage_favorites_post example_ctx example_db 7 (Some (2 ^ 63))
       = (Inl (Exn ''OverflowError''), example_db)
   \<and> fst (serve example_lib example_ctx (PostFavorites (Some (2 ^ 63))) example_db)
       = Tuple (err ''Internal server error'') 500
   \<and> favorites example_db = []
   \<and> manage_favorites_post (example_ctx\<lparr>commit_raises := True\<rparr>) example_db 7 (Some 1)
       = (Inr (Tuple (err ''Failed to add favorite'') 500), example_db)"
  by (simp add: manage_favorites_post_def manage_favorites_post_between_def
      favorites_post_check_def favorites_post_commit_def commit_add_favorite_def
      Fact_query_get_def Favorite_filter_by_def in_int64_def first_def returned_def
      jwt_required_def track_usage_def commit_add_usage_def
      example_db_def example_ctx_def Let_def)


theorem add_outcomes_witness:
  "manage_favorites_post example_ctx example_db 7 (Some 2)
     = (Inr (Tuple (err ''Fact not found'') 404), example_db)
   \<and> manage_favorites_post example_ctx example_db 7 (Some 9)
     = (Inr (Tuple (err ''Fact not found'') 404), example_db)
   \<and> manage_favorites_post example_ctx example_favs 7 (Some 1)
     = (Inr (Tuple (err ''Already in favorites'') 400), example_favs)
   \<and> (\<exists>s' r. manage_favorites_post example_ctx example_db 7 (Some 1)
                 = (Inr (Tuple (JObj [(''message'', JStr ''Added to favorites'')]) 201), s')
            \<and> favorites s' = favorites example_db @ [r] \<and> fav_user_id r = 7 \<and> fav_fact_id r = 1
            \<and> users s' = users example_db \<and> facts s' = facts example_db
            \<and> usages s' = usages example_db
            \<and> length (filter (\<lambda>r. fav_user_id r = 7 \<and> fav_fact_id r = 1) (favorites s')) = 1)
   \<and> manage_favorites_post (example_ctx\<lparr>commit_raises := True\<rparr>) example_db 7 (Some 1)
     = (Inr (Tuple (err ''Failed to add favorite'') 500), example_db)"
proof -
  let ?c = "example_ctx\<lparr>commit_raises := True\<rparr>"
  have i1: "in_int64 1" and i2: "in_int64 2" and i9: "in_int64 9"
    by (simp_all add: in_int64_def)
  have g1: "\<exists>x. find (\<lambda>x. f_id x = 1) (facts example_db) = Some x \<and> f_is_active x"
    by (simp add: example_db_def)
  have g2: "\<exists>x. find (\<lambda>x. f_id x = 2) (facts example_db) = Some x \<and> \<not> f_is_active x"
    by (simp add: example_db_def)
  have g9: "\<forall>x \<in> set (facts example_db). f_id x \<noteq> 9"
    by (simp add: example_db_def)
  have n1: "\<not> (\<exists>r \<in> set (favorites example_db). fav_user_id r = 7 \<and> fav_fact_id r = 1)"
    by (simp add: example_db_def)
  have ok: "\<not> commit_raises example_ctx"
    by (simp add: example_ctx_def)
  have no: "commit_raises ?c"
    by simp
  have d1: "\<exists>x. find (\<lambda>x. f_id x = 1) (facts example_favs) = Some x \<and> f_is_active x"
    by (simp add: example_favs_def example_db_def)
  have d2: "\<exists>r \<in> set (favorites example_favs). fav_user_id r = 7 \<and> fav_fact_id r = 1"
    by (simp add: example_favs_def)
  note a1 = add_outcomes [of 2 example_db example_ctx 7, THEN mp, OF i2, THEN conjunct1,
      rule_format, OF disjI2, OF g2]
  note a2 = add_outcomes [of 9 example_db example_ctx 7, THEN mp, OF i9, THEN conjunct1,
      rule_format, OF disjI1, OF g9]
  note a3 = add_outcomes [of 1 example_favs example_ctx 7, THEN mp, OF i1, THEN conjunct2,
      THEN conjunct1, rule_format, OF conjI, OF d1 d2]
  note a4 = add_outcomes [of 1 example_db example_ctx 7, THEN mp, OF i1, THEN conjunct2,
      THEN conjunct2, THEN conjunct1, rule_format, OF conjI, OF g1 conjI, OF n1 ok]
  note a5 = add_outcomes [of 1 example_db ?c 7, THEN mp, OF i1, THEN conjunct2,
      THEN conjunct2, THEN conjunct2, rule_format, OF conjI, OF g1 conjI, OF n1 no]
  show ?thesis
    by (intro conjI a1 a2 a3 a4 a5)
qed

section \<open>Favorites: a duplicate insert that races\<close>

text \<open>
  Claim C1, at a request where the code departs from it. A request to add fact 1 for
  user 7 passes the existence check on a store without that row; before its commit another
  request adds the same row and is answered 201. The commit of the first request is then
  rejected by the uniqueness constraint, and the request is answered 500
  \<open>Failed to add favorite\<close>, not 400 \<open>Already in favorites\<close>; the store keeps the one row.
\<close>

theorem racing_add_answers_500:
  "favorites_post_check example_db 7 (Some 1) = Inr (Inr (7, 1))
   \<and> manage_favorites_post example_ctx example_db 7 (Some 1)
       = (Inr (Tuple (JObj [(''message'', JStr ''Added to favorites'')]) 201),
          example_db\<lparr>favorites :=
            [\<lparr>fav_id = 1, fav_user_id = 7, fav_fact_id = 1, fav_created_at = 100\<rparr>]\<rparr>)
   \<and> manage_favorites_post_between example_ctx
        (\<lambda>s. snd (manage_favorites_post example_ctx s 7 (Some 1))) example_db 7 (Some 1)
       = (Inr (Tuple (err ''Failed to add favorite'') 500),
          example_db\<lparr>favorites :=
            [\<lparr>fav_id = 1, fav_user_id = 7, fav_fact_id = 1, fav_created_at = 100\<rparr>]\<rparr>)"
  by (simp add: manage_favorites_post_between_def manage_favorites_post_def
      favorites_post_check_def favorites_post_commit_def commit_add_favorite_def
      Fact_query_get_def Favorite_filter_by_def in_int64_def first_def next_id_def returned_def
      example_db_def example_ctx_def)

section \<open>Favorites: remove\<close>

lemma delete_absent:
  assumes "in_int64 f"
    and "\<not> (\<exists>r \<in> set (favorites s). fav_user_id r = u \<and> fav_fact_id r = f)"
  shows "manage_favorites_delete c s u (Some f) = (Inr (Tuple (err ''Not in favorites'') 404), s)"
proof -
  from assms(2) have "filter (\<lambda>r. fav_user_id r = u \<and> fav_fact_id r = f) (favorites s) = []"
    by (simp add: filter_pair_Nil)
  with assms(1) show ?thesis
    by (simp add: manage_favorites_delete_def Favorite_filter_by_def first_def)
qed

lemma delete_finds:
  assumes "\<exists>r \<in> set (favorites s). fav_user_id r = u \<and> fav_fact_id r = f"
  shows "\<exists>r. first (filter (\<lambda>r. fav_user_id r = u \<and> fav_fact_id r = f) (favorites s)) = Some r
            \<and> r \<in> set (favorites s) \<and> fav_user_id r = u \<and> fav_fact_id r = f"
proof -
  let ?rows = "filter (\<lambda>r. fav_user_id r = u \<and> fav_fact_id r = f) (favorites s)"
  from assms have "?rows \<noteq> []"
    by (simp add: filter_pair_Nil)
  then obtain r where r: "first ?rows = Some r"
    by (cases ?rows) (simp_all add: first_def)
  then have "r \<in> set ?rows"
    by (rule first_Some_mem)
  with r show ?thesis by simp
qed

lemma delete_present:
  assumes "in_int64 f"
    and "\<exists>r \<in> set (favorites s). fav_user_id r = u \<and> fav_fact_id r = f"
    and "\<not> commit_raises c"
  shows "\<exists>r. first (filter (\<lambda>r. fav_user_id r = u \<and> fav_fact_id r = f) (favorites s)) = Some r
            \<and> r \<in> set (favorites s) \<and> fav_user_id r = u \<and> fav_fact_id r = f
            \<and> manage_favorites_delete c s u (Some f)
               = (Inr (Response (JObj [(''message'', JStr ''Removed from favorites'')])),
                  s\<lparr>favorites := filter (\<lambda>x. fav_id x \<noteq> fav_id r) (favorites s)\<rparr>)"
proof -
  from delete_finds [OF assms(2)] obtain r where
    r: "first (filter (\<lambda>r. fav_user_id r = u \<and> fav_fact_id r = f) (favorites s)) = Some r"
    and m: "r \<in> set (favorites s) \<and> fav_user_id r = u \<and> fav_fact_id r = f"
    by blast
  from r assms(1,3) have "manage_favorites_delete c s u (Some f)
               = (Inr (Response (JObj [(''message'', JStr ''Removed from favorites'')])),
                  s\<lparr>favorites := filter (\<lambda>x. fav_id x \<noteq> fav_id r) (favorites s)\<rparr>)"
    by (simp add: manage_favorites_delete_def Favorite_filter_by_def commit_delete_favorite_def)
  with r m show ?thesis by blast
qed

lemma delete_refused:
  assumes "in_int64 f"
    and "\<exists>r \<in> set (favorites s). fav_user_id r = u \<and> fav_fact_id r = f"
    and "commit_raises c"
  shows "manage_favorites_delete c s u (Some f)
           = (Inr (Tuple (err ''Failed to remove favorite'') 500), s)"
proof -
  from delete_finds [OF assms(2)] obtain r where
    "first (filter (\<lambda>r. fav_user_id r = u \<and> fav_fact_id r = f) (favorites s)) = Some r"
    by blast
  with assms(1,3) show ?thesis
    by (simp add: manage_favorites_delete_def Favorite_filter_by_def commit_delete_favorite_def)
qed

lemma post_created_inv:
  assumes "fst (manage_favorites_post c s u (Some f))
             = Inr (Tuple (JObj [(''message'', JStr ''Added to favorites'')]) 201)"
  shows "in_int64 f
         \<and> filter (\<lambda>r. fav_user_id r = u \<and> fav_fact_id r = f) (favorites s) = []
         \<and> snd (manage_favorites_post c s u (Some f))
            = s\<lparr>favorites := favorites s @
                 [\<lparr>fav_id = next_id (map fav_id (favorites s)), fav_user_id = u,
                   fav_fact_id = f, fav_created_at = utcnow c\<rparr>]\<rparr>"
  using assms
  by (auto simp: manage_favorites_post_def manage_favorites_post_between_def
      favorites_post_check_def favorites_post_commit_def commit_add_favorite_def err_def
      Fact_query_get_def Favorite_filter_by_def first_def returned_def
      split: option.splits if_splits list.splits)

lemma filter_fresh_id:
  "filter (\<lambda>x. fav_id x \<noteq> next_id (map fav_id rs)) rs = rs"
proof -
  have "\<forall>x \<in> set rs. fav_id x \<noteq> next_id (map fav_id rs)"
    using next_id_gt [of _ "map fav_id rs"] by fastforce
  then show ?thesis by (simp add: filter_id_conv)
qed

lemma add_then_delete:
  assumes "fst (manage_favorites_post c s u (Some f))
             = Inr (Tuple (JObj [(''message'', JStr ''Added to favorites'')]) 201)"
    and "\<not> commit_raises c'"
  shows "manage_favorites_delete c' (snd (manage_favorites_post c s u (Some f))) u (Some f)
           = (Inr (Response (JObj [(''message'', JStr ''Removed from favorites'')])), s)"
proof -
  from post_created_inv [OF assms(1)] have i: "in_int64 f"
    and e: "filter (\<lambda>r. fav_user_id r = u \<and> fav_fact_id r = f) (favorites s) = []"
    and s1: "snd (manage_favorites_post c s u (Some f))
            = s\<lparr>favorites := favorites s @
                 [\<lparr>fav_id = next_id (map fav_id (favorites s)), fav_user_id = u,
                   fav_fact_id = f, fav_created_at = utcnow c\<rparr>]\<rparr>"
    by simp_all
  show ?thesis
    unfolding s1 using i e assms(2)
    by (simp add: manage_favorites_delete_def Favorite_filter_by_def first_def
        commit_delete_favorite_def filter_fresh_id)
qed

lemma delete_again:
  assumes "in_int64 f"
    and "filter (\<lambda>r. fav_user_id r = u \<and> fav_fact_id r = f) (favorites s) = []"
  shows "manage_favorites_delete c
           (((\<lambda>t. snd (manage_favorites_delete c t u (Some f))) ^^ n) s) u (Some f)
         = (Inr (Tuple (err ''Not in favorites'') 404), s)"
proof -
  have d: "manage_favorites_delete c s u (Some f) = (Inr (Tuple (err ''Not in favorites'') 404), s)"
    using assms by (simp add: delete_absent filter_pair_Nil)
  have "((\<lambda>t. snd (manage_favorites_delete c t u (Some f))) ^^ n) s = s"
    by (induction n) (simp_all add: d)
  with d show ?thesis by simp
qed

text \<open>
  Claim C5, as amended. For every user \<open>u\<close> and every fact id \<open>f\<close> within the store's
  64-bit range, the remove request answers 404 \<open>Not in favorites\<close> when no Favorite row for
  \<open>(u, f)\<close> exists; when one exists and the store accepts the commit, it answers 200 and
  deletes the row it found; when the store refuses the commit, it rolls back, answers 500
  \<open>Failed to remove favorite\<close> and leaves the store alone. After an add that answered 201,
  the first remove whose commit the store accepts answers 200 and gives back the store as
  it was before the add, and every later remove, however many came before it, answers 404.
  The claim as stated fails for the id \<open>2 ^ 63\<close>, where the query raises and the caller
  gets the generic 500, and for a refused commit.
\<close>

theorem remove_outcomes:
  "(in_int64 f \<longrightarrow>
      (\<not> (\<exists>r \<in> set (favorites s). fav_user_id r = u \<and> fav_fact_id r = f)
         \<longrightarrow> manage_favorites_delete c s u (Some f)
               = (Inr (Tuple (err ''Not in favorites'') 404), s))
    \<and> ((\<exists>r \<in> set (favorites s). fav_user_id r = u \<and> fav_fact_id r = f) \<and> \<not> commit_raises c
         \<longrightarrow> (\<exists>r. first (filter (\<lambda>r. fav_user_id r = u \<and> fav_fact_id r = f) (favorites s))
                      = Some r
                 \<and> r \<in> set (favorites s) \<and> fav_user_id r = u \<and> fav_fact_id r = f
                 \<and> manage_favorites_delete c s u (Some f)
                    = (Inr (Response (JObj [(''message'', JStr ''Removed from favorites'')])),
                       s\<lparr>favorites := filter (\<lambda>x. fav_id x \<noteq> fav_id r) (favorites s)\<rparr>)))
    \<and> ((\<exists>r \<in> set (favorites s). fav_user_id r = u \<and> fav_fact_id r = f) \<and> commit_raises c
         \<longrightarrow> manage_favorites_delete c s u (Some f)
               = (Inr (Tuple (err ''Failed to remove favorite'') 500), s)))
   \<and> (fst (manage_favorites_post c0 s u (Some f))
         = Inr (Tuple (JObj [(''message'', JStr ''Added to favorites'')]) 201)
       \<and> \<not> commit_raises c
      \<longrightarrow> manage_favorites_delete c (snd (manage_favorites_post c0 s u (Some f))) u (Some f)
            = (Inr (Response (JObj [(''message'', JStr ''Removed from favorites'')])), s)
          \<and> (\<forall>n c'. manage_favorites_delete c'
                    (((\<lambda>t. snd (manage_favorites_delete c' t u (Some f))) ^^ n) s) u (Some f)
                  = (Inr (Tuple (err ''Not in favorites'') 404), s)))"
proof (intro conjI impI allI)
  assume "in_int64 f" "\<not> (\<exists>r \<in> set (favorites s). fav_user_id r = u \<and> fav_fact_id r = f)"
  then show "manage_favorites_delete c s u (Some f)
               = (Inr (Tuple (err ''Not in favorites'') 404), s)"
    by (rule delete_absent)
next
  assume "in_int64 f"
    "(\<exists>r \<in> set (favorites s). fav_user_id r = u \<and> fav_fact_id r = f) \<and> \<not> commit_raises c"
  then show "\<exists>r. first (filter (\<lambda>r. fav_user_id r = u \<and> fav_fact_id r = f) (favorites s))
                      = Some r
                 \<and> r \<in> set (favorites s) \<and> fav_user_id r = u \<and> fav_fact_id r = f
                 \<and> manage_favorites_delete c s u (Some f)
                    = (Inr (Response (JObj [(''message'', JStr ''Removed from favorites'')])),
                       s\<lparr>favorites := filter (\<lambda>x. fav_id x \<noteq> fav_id r) (favorites s)\<rparr>)"
    by (simp add: delete_present)
next
  assume "in_int64 f"
    "(\<exists>r \<in> set (favorites s). fav_user_id r = u \<and> fav_fact_id r = f) \<and> commit_raises c"
  then show "manage_favorites_delete c s u (Some f)
               = (Inr (Tuple (err ''Failed to remove favorite'') 500), s)"
    by (simp add: delete_refused)
next
  assume a: "fst (manage_favorites_post c0 s u (Some f))
         = Inr (Tuple (JObj [(''message'', JStr ''Added to favorites'')]) 201)
       \<and> \<not> commit_raises c"
  then show "manage_favorites_delete c (snd (manage_favorites_post c0 s u (Some f))) u (Some f)
            = (Inr (Response (JObj [(''message'', JStr ''Removed from favorites'')])), s)"
    by (simp add: add_then_delete)
  fix n c'
  from a post_created_inv [of c0 s u f] show "manage_favorites_delete c'
                    (((\<lambda>t. snd (manage_favorites_delete c' t u (Some f))) ^^ n) s) u (Some f)
                  = (Inr (Tuple (err ''Not in favorites'') 404), s)"
    by (simp add: delete_again)
qed

theorem remove_outcomes_counterexample:
  "favorites example_db = []
   \<and> manage_favorites_delete example_ctx example_db 7 (Some (2 ^ 63))
       = (Inl (Exn ''OverflowError''), example_db)
   \<and> fst (serve example_lib example_ctx (DeleteFavorites (Some (2 ^ 63))) example_db)
       = Tuple (err ''Internal server error'') 500
   \<and> manage_favorites_delete (example_ctx\<lparr>commit_raises := True\<rparr>) example_favs 7 (Some 1)
       = (Inr (Tuple (err ''Failed to remove favorite'') 500), example_favs)"
  by (simp add: manage_favorites_delete_def commit_delete_favorite_def
      Favorite_filter_by_def in_int64_def first_def
      jwt_required_def track_usage_def commit_add_usage_def
      example_db_def example_favs_def example_ctx_def Let_def)

theorem remove_outcomes_witness:
  "manage_favorites_delete example_ctx example_db 7 (Some 1)
     = (Inr (Tuple (err ''Not in favorites'') 404), example_db)
   \<and> manage_favorites_delete (example_ctx\<lparr>commit_raises := True\<rparr>) example_favs 7 (Some 1)
       = (Inr (Tuple (err ''Failed to remove favorite'') 500), example_favs)
   \<and> manage_favorites_delete example_ctx
        (snd (manage_favorites_post example_ctx example_db 7 (Some 1))) 7 (Some 1)
       = (Inr (Response (JObj [(''message'', JStr ''Removed from favorites'')])), example_db)
   \<and> manage_favorites_delete example_ctx
        (((\<lambda>t. snd (manage_favorites_delete example_ctx t 7 (Some 1))) ^^ 3) example_db) 7 (Some 1)
       = (Inr (Tuple (err ''Not in favorites'') 404), example_db)"
proof -
  let ?c = "example_ctx\<lparr>commit_raises := True\<rparr>"
  have i: "in_int64 1"
    by (simp add: in_int64_def)
  have h1: "\<not> (\<exists>r \<in> set (favorites example_db). fav_user_id r = 7 \<and> fav_fact_id r = 1)"
    by (simp add: example_db_def)
  have h2: "fst (manage_favorites_post example_ctx example_db 7 (Some 1))
         = Inr (Tuple (JObj [(''message'', JStr ''Added to favorites'')]) 201)
        \<and> \<not> commit_raises example_ctx"
    by (simp add: manage_favorites_post_def manage_favorites_post_between_def
      favorites_post_check_def favorites_post_commit_def commit_add_favorite_def
      Fact_query_get_def Favorite_filter_by_def in_int64_def first_def returned_def
      example_db_def example_ctx_def)
  have h3: "(\<exists>r \<in> set (favorites example_favs). fav_user_id r = 7 \<and> fav_fact_id r = 1)
        \<and> commit_raises ?c"
    by (simp add: example_favs_def)
  note r = remove_outcomes [of 1 example_db 7 example_ctx example_ctx]
  note a1 = r [THEN conjunct1, THEN mp, OF i, THEN conjunct1, rule_format, OF h1]
  note a2 = remove_outcomes [of 1 example_favs 7 ?c example_ctx, THEN conjunct1, THEN mp, OF i,
      THEN conjunct2, THEN conjunct2, rule_format, OF h3]
  note a3 = r [THEN conjunct2, rule_format, OF h2, THEN conjunct1]
  note a4 = r [THEN conjunct2, rule_format, OF h2, THEN conjunct2, rule_format,
      of example_ctx 3]
  show ?thesis
    by (intro conjI a1 a2 a3 a4)
qed

section \<open>Favorites: list\<close>

text \<open>
  Claim C8. For every user \<open>u\<close>, the list request returns the \<open>to_dict\<close> of the facts of
  the joined rows, and every joined row pairs a Favorite row of \<open>u\<close> with the fact it
  points at, which is active: no returned element comes from a Favorite row whose fact
  is inactive.
\<close>

theorem list_only_active:
  "manage_favorites_get s u = Response (JList (map (\<lambda>(r, x). to_dict x) (favorites_join s u)))
   \<and> (\<forall>(r, x) \<in> set (favorites_join s u).
         r \<in> set (favorites s) \<and> x \<in> set (facts s) \<and> fav_user_id r = u
         \<and> f_id x = fav_fact_id r \<and> f_is_active x)"
  by (auto simp: manage_favorites_get_def favorites_join_def)

theorem list_only_active_witness:
  "favorites_join example_favs 7
     = [(\<lparr>fav_id = 1, fav_user_id = 7, fav_fact_id = 1, fav_created_at = 20\<rparr>,
         \<lparr>f_id = 1, f_content = ''a'', f_category = ''food'', f_is_active = True,
          f_created_at = 0, f_view_count = 0\<rparr>)]
   \<and> manage_favorites_get example_favs 7
       = Response (JList (map (\<lambda>(r, x). to_dict x) (favorites_join example_favs 7)))
   \<and> list_all (\<lambda>(r, x). f_is_active x) (favorites_join example_favs 7)"
proof -
  have j: "favorites_join example_favs 7
     = [(\<lparr>fav_id = 1, fav_user_id = 7, fav_fact_id = 1, fav_created_at = 20\<rparr>,
         \<lparr>f_id = 1, f_content = ''a'', f_category = ''food'', f_is_active = True,
          f_created_at = 0, f_view_count = 0\<rparr>)]"
    by (simp add: favorites_join_def example_favs_def example_db_def)
  from list_only_active [of example_favs 7]
  have g: "manage_favorites_get example_favs 7
       = Response (JList (map (\<lambda>(r, x). to_dict x) (favorites_join example_favs 7)))"
    and "\<forall>(r, x) \<in> set (favorites_join example_favs 7). f_is_active x"
    by fastforce+
  then have "list_all (\<lambda>(r, x). f_is_active x) (favorites_join example_favs 7)"
    by (simp add: list_all_iff)
  with j g show ?thesis by blast
qed

section \<open>Login\<close>

text \<open>
  When the password check of the user found returns, the login view answers 401
  \<open>Invalid credentials\<close> exactly when no user has the username, or the check fails, or the
  user is inactive, and otherwise returns the token created for that user's id. When the
  check raises, so does the view.
\<close>

lemma login_raises:
  "first (filter (\<lambda>x. u_username x = name) (users s)) = Some u
   \<Longrightarrow> check_password l u password = Inl e
   \<Longrightarrow> login l s (Some (name, password)) = Inl e"
  by (simp add: login_def)

lemma login_outcomes:
  assumes "\<forall>u e. first (filter (\<lambda>x. u_username x = name) (users s)) = Some u
             \<longrightarrow> check_password l u password \<noteq> Inl e"
  shows "(login l s (Some (name, password)) = Inr (Tuple (err ''Invalid credentials'') 401)
      \<longleftrightarrow> (\<forall>u \<in> set (users s). u_username u \<noteq> name)
          \<or> (\<exists>u. first (filter (\<lambda>x. u_username x = name) (users s)) = Some u
                 \<and> (check_password l u password = Inr False \<or> \<not> u_is_active u)))
   \<and> (\<forall>u. first (filter (\<lambda>x. u_username x = name) (users s)) = Some u
           \<and> check_password l u password = Inr True \<and> u_is_active u
         \<longrightarrow> u \<in> set (users s) \<and> u_username u = name
             \<and> login l s (Some (name, password))
                = Inr (Response (JObj [(''access_token'', JStr (create_access_token l (u_id u))),
                                       (''user'', user_to_dict u)])))"
proof (cases "first (filter (\<lambda>x. u_username x = name) (users s))")
  case None
  then have "\<forall>u \<in> set (users s). u_username u \<noteq> name"
    by (simp add: first_None_iff filter_empty_conv)
  with None show ?thesis
    by (simp add: login_def)
next
  case (Some v)
  then have "v \<in> set (filter (\<lambda>x. u_username x = name) (users s))"
    by (rule first_Some_mem)
  then have v: "v \<in> set (users s)" "u_username v = name"
    by simp_all
  then have e: "\<not> (\<forall>u \<in> set (users s). u_username u \<noteq> name)"
    by blast
  from assms Some obtain b where b: "check_password l v password = Inr b"
    by (cases "check_password l v password") auto
  show ?thesis
  proof (cases "b \<and> u_is_active v")
    case True
    with Some v e b show ?thesis
      by (simp add: login_def err_def)
  next
    case False
    with Some v e b show ?thesis
      by (auto simp: login_def)
  qed
qed

text \<open>
  Claim C6, at requests where the code departs from it. User alice exists and is active.
  A login as alice whose password is the JSON number 123 raises \<open>AttributeError\<close> in
  \<open>check_password\<close>, and the caller gets the generic 500, not 401; so does a login whose
  password has 73 characters under a bcrypt that raises over 72 bytes. A short wrong
  password is answered 401.
\<close>

theorem login_crashes_on_password:
  "first (filter (\<lambda>x. u_username x = ''alice'') (users example_users))
     = Some \<lparr>u_id = 7, u_username = ''alice'', u_email = ''alice@x.com'',
             u_password_hash = ''$pw123456'', u_is_active = True, u_created_at = 10\<rparr>
   \<and> login example_lib example_users (Some (''alice'', JInt 123)) = Inl (Exn ''AttributeError'')
   \<and> fst (track_usage example_ctx False ''login'' ''POST''
            (\<lambda>s. (login example_lib s (Some (''alice'', JInt 123)), s)) example_users)
       = Tuple (err ''Internal server error'') 500
   \<and> login example_lib example_users (Some (''alice'', JStr (replicate 73 CHR ''x'')))
       = Inl (Exn ''ValueError'')
   \<and> login example_lib example_users (Some (''alice'', JStr ''wrong''))
       = Inr (Tuple (err ''Invalid credentials'') 401)"
  by (simp add: login_def check_password_def first_def track_usage_def commit_add_usage_def
      example_lib_def example_users_def example_ctx_def Let_def)

section \<open>The usage recorder\<close>

text \<open>
  After a raise the recorder answers with the generic tuple and records 500. After a
  return it records 200 whatever the view returned: a response object carries 200, and a
  tuple has no \<open>status_code\<close> attribute, so the default of line 44 stays.
\<close>

lemma track_usage_raised:
  "f s = (Inl e, s1) \<Longrightarrow>
   fst (track_usage c p ep m f s) = Tuple (err ''Internal server error'') 500
   \<and> (\<not> usage_commit_raises c
        \<longrightarrow> au_response_code (last (usages (snd (track_usage c p ep m f s)))) = 500)"
  by (simp add: track_usage_def commit_add_usage_def Let_def)

lemma track_usage_recorded:
  "f s = (Inr r, s1) \<Longrightarrow> \<not> usage_commit_raises c \<Longrightarrow>
   fst (track_usage c p ep m f s) = r
   \<and> au_response_code (last (usages (snd (track_usage c p ep m f s)))) = 200"
  by (cases r) (simp_all add: track_usage_def commit_add_usage_def Let_def)

lemma facts_seeded:
  "map f_id (facts seeded_db) = [1, 2, 3, 4, 5, 6, 7, 8, 9, 10, 11, 12, 13, 14, 15]
   \<and> map f_view_count (facts seeded_db) = [0, 0, 0, 0, 0, 0, 0, 0, 0, 0, 0, 0, 0, 0, 0]
   \<and> list_all f_is_active (facts seeded_db)"
  by (simp add: seeded_db_def seed_data_def empty_db_def facts_data_def add_fact_def next_id_def)

text \<open>
  Claim C4, at a request where the code departs from it. On the seeded store, the
  random-fact view asked for a category no fact has returns the tuple with status 404,
  which is what the caller receives, and the usage row written for the request carries
  response code 200.
\<close>

theorem usage_records_200_for_404:
  "fst (track_usage example_ctx False ''random_fact'' ''GET''
         (\<lambda>s. random_fact example_ctx s (Some ''nope'')) seeded_db)
     = Tuple (err ''No facts found'') 404
   \<and> usages (snd (track_usage example_ctx False ''random_fact'' ''GET''
         (\<lambda>s. random_fact example_ctx s (Some ''nope'')) seeded_db))
     = [\<lparr>au_id = 1, au_endpoint = ''random_fact'', au_method = ''GET'',
         au_ip_address = ''127.0.0.1'', au_user_id = None, au_response_code = 200,
         au_response_time_ms = 1000, au_timestamp = 100\<rparr>]"
  by (simp add: track_usage_def random_fact_def random_fact_between_def random_first_def
      active_facts_def commit_add_usage_def next_id_def example_ctx_def Let_def
      seeded_db_def seed_data_def empty_db_def facts_data_def add_fact_def)

section \<open>Random fact\<close>

















section \<open>The view counter\<close>

text \<open>
  Claim C9, at a run where the code departs from it. On the seeded store every counter
  is 0. A request picks the first fact and loads its counter, 0; before it commits, two
  other requests pick the same fact and commit, and the stored counter is 2; the first
  request then commits the value it computed from what it loaded, and the stored counter
  is 1: it has decreased.
\<close>

theorem interleaved_pick_lowers_counter:
  "f_view_count (hd (facts seeded_db)) = 0
   \<and> f_view_count (hd (facts (snd (random_fact example_ctx
                                      (snd (random_fact example_ctx seeded_db None)) None)))) = 2
   \<and> f_view_count (hd (facts (snd (random_fact_between example_ctx
        (\<lambda>s. snd (random_fact example_ctx (snd (random_fact example_ctx s None)) None))
        seeded_db None)))) = 1"
  by (simp add: random_fact_def random_fact_between_def random_first_def refresh_def
      active_facts_def commit_view_count_def example_ctx_def Let_def
      seeded_db_def seed_data_def empty_db_def facts_data_def add_fact_def next_id_def)

section \<open>Paginated facts\<close>

lemma paginate_returns:
  assumes "per_page \<le> 50"
  shows "in_int64 (page_offset page per_page)
     \<Longrightarrow> paginate q page per_page
         = Inr \<lparr>p_items = take (nat (if per_page < 1 then 20 else per_page))
                            (drop (nat (page_offset page per_page)) q),
                p_pages = (if int (length q) = 0 then 0
                           else - ((- int (length q)) div (if per_page < 1 then 20 else per_page))),
                p_total = int (length q)\<rparr>"
  and "\<not> in_int64 (page_offset page per_page)
     \<Longrightarrow> paginate q page per_page = Inl (Exn ''OverflowError'')"
  using assms by (auto simp: paginate_def Let_def in_int64_def)

lemma ceil_times:
  fixes total pp :: int
  assumes "1 \<le> pp"
  shows "total \<le> (- ((- total) div pp)) * pp"
proof -
  have e: "(- total) div pp * pp = - total - (- total) mod pp"
    by (simp add: minus_mod_eq_div_mult [symmetric])
  have m: "0 \<le> (- total) mod pp"
    using assms by simp
  have "(- ((- total) div pp)) * pp = - ((- total) div pp * pp)"
    by (rule mult_minus_left)
  with e m show ?thesis
    by linarith
qed

lemma beyond_last_page:
  fixes page per_page :: int
  assumes "q \<noteq> []"
    and "- ((- int (length q)) div (if per_page < 1 then 20 else per_page)) < page"
  shows "drop (nat (page_offset page per_page)) q = []"
proof -
  define pp where "pp = (if per_page < 1 then 20 else per_page)"
  define total where "total = int (length q)"
  have pp: "1 \<le> pp" by (simp add: pp_def)
  from assms(1) have t: "0 < total" by (simp add: total_def)
  from assms(2) have lt: "- ((- total) div pp) < page"
    by (simp add: pp_def total_def)
  have c: "total \<le> (- ((- total) div pp)) * pp"
    using pp by (rule ceil_times)
  have "0 < - ((- total) div pp)"
  proof (rule ccontr)
    assume "\<not> 0 < - ((- total) div pp)"
    then have "(- ((- total) div pp)) * pp \<le> 0"
      using pp by (simp add: mult_nonpos_nonneg)
    with c t show False by linarith
  qed
  with lt have pg: "1 \<le> page" by simp
  from lt have le: "- ((- total) div pp) \<le> page - 1" by simp
  have "(- ((- total) div pp)) * pp \<le> (page - 1) * pp"
    by (rule mult_right_mono) (use le pp in simp_all)
  with c have "total \<le> (page - 1) * pp" by simp
  then have "length q \<le> nat ((page - 1) * pp)"
    by (simp add: total_def)
  with pg show ?thesis
    by (simp add: page_offset_def pp_def)
qed

lemma get_facts_returns:
  assumes "in_int64 (page_offset (case pa of None \<Rightarrow> 1 | Some p \<Rightarrow> p)
                       (min (case ppa of None \<Rightarrow> 10 | Some n \<Rightarrow> n) 50))"
  shows "get_facts s pa ppa cat
     = Inr (Response (JObj
         [(''facts'', JList (map to_dict
             (take (nat (if min (case ppa of None \<Rightarrow> 10 | Some n \<Rightarrow> n) 50 < 1 then 20
                         else min (case ppa of None \<Rightarrow> 10 | Some n \<Rightarrow> n) 50))
               (drop (nat (page_offset (case pa of None \<Rightarrow> 1 | Some p \<Rightarrow> p)
                             (min (case ppa of None \<Rightarrow> 10 | Some n \<Rightarrow> n) 50)))
                  (active_facts s cat))))),
          (''pagination'', JObj
             [(''page'', JInt (case pa of None \<Rightarrow> 1 | Some p \<Rightarrow> p)),
              (''pages'', JInt (if int (length (active_facts s cat)) = 0 then 0
                  else - ((- int (length (active_facts s cat)))
                       div (if min (case ppa of None \<Rightarrow> 10 | Some n \<Rightarrow> n) 50 < 1 then 20
                            else min (case ppa of None \<Rightarrow> 10 | Some n \<Rightarrow> n) 50)))),
              (''per_page'', JInt (min (case ppa of None \<Rightarrow> 10 | Some n \<Rightarrow> n) 50)),
              (''total'', JInt (int (length (active_facts s cat))))])]))"
  using paginate_returns(1) [OF _ assms, of "active_facts s cat"]
  by (simp add: get_facts_def Let_def)


text \<open>
  Claim C7, as amended. For every request for the facts list whose OFFSET is within the
  store's 64-bit range, the view answers 200. When the requested page size \<open>s\<close> (10 when
  absent) is at least 1, the returned list has at most \<open>s\<close> items; when it is below 1 the
  paginator's fallback size applies and the list has at most 20 items. A page number above
  the reported number of pages yields the empty list. The claim as stated fails for
  \<open>s = 0\<close> and \<open>s = -1\<close>, where one fact is returned, and for page \<open>10 ^ 19\<close>, where the
  query raises and the caller gets the generic 500.
\<close>

theorem get_facts_page_size:
  "in_int64 (page_offset (case pa of None \<Rightarrow> 1 | Some p \<Rightarrow> p)
               (min (case ppa of None \<Rightarrow> 10 | Some n \<Rightarrow> n) 50))
   \<longrightarrow> (\<exists>r fs pages.
        get_facts s pa ppa cat = Inr r
      \<and> http_status r = 200
      \<and> field ''facts'' (body r) = Some (JList fs)
      \<and> pagination_field ''pages'' r = Some (JInt pages)
      \<and> (1 \<le> (case ppa of None \<Rightarrow> 10 | Some n \<Rightarrow> n)
           \<longrightarrow> int (length fs) \<le> (case ppa of None \<Rightarrow> 10 | Some n \<Rightarrow> n))
      \<and> ((case ppa of None \<Rightarrow> 10 | Some n \<Rightarrow> n) < 1 \<longrightarrow> int (length fs) \<le> 20)
      \<and> (pages < (case pa of None \<Rightarrow> 1 | Some p \<Rightarrow> p) \<longrightarrow> fs = []))"
proof
  let ?page = "case pa of None \<Rightarrow> 1 | Some p \<Rightarrow> p"
  let ?size = "case ppa of None \<Rightarrow> (10::int) | Some n \<Rightarrow> n"
  let ?pp = "if min ?size 50 < 1 then 20 else min ?size 50"
  let ?q = "active_facts s cat"
  let ?items = "take (nat ?pp) (drop (nat (page_offset ?page (min ?size 50))) ?q)"
  let ?pages = "if int (length ?q) = 0 then 0 else - ((- int (length ?q)) div ?pp)"
  assume i: "in_int64 (page_offset ?page (min ?size 50))"
  note g = get_facts_returns [OF i, of s cat]
  have l1: "1 \<le> ?size \<longrightarrow> int (length (map to_dict ?items)) \<le> ?size"
    by (auto simp: min_def)
  have l2: "?size < 1 \<longrightarrow> int (length (map to_dict ?items)) \<le> 20"
    by (auto simp: min_def)
  have b: "?pages < ?page \<longrightarrow> map to_dict ?items = []"
  proof
    assume p: "?pages < ?page"
    show "map to_dict ?items = []"
    proof (cases "?q = []")
      case True
      then show ?thesis by simp
    next
      case False
      with p have "- ((- int (length ?q)) div ?pp) < ?page" by simp
      with False have "drop (nat (page_offset ?page (min ?size 50))) ?q = []"
        by (rule beyond_last_page)
      then show ?thesis by simp
    qed
  qed
  show "\<exists>r fs pages.
        get_facts s pa ppa cat = Inr r
      \<and> http_status r = 200
      \<and> field ''facts'' (body r) = Some (JList fs)
      \<and> pagination_field ''pages'' r = Some (JInt pages)
      \<and> (1 \<le> ?size \<longrightarrow> int (length fs) \<le> ?size)
      \<and> (?size < 1 \<longrightarrow> int (length fs) \<le> 20)
      \<and> (pages < ?page \<longrightarrow> fs = [])"
    apply (rule exI, rule exI [of _ "map to_dict ?items"], rule exI [of _ ?pages])
    apply (intro conjI)
          apply (rule g)
         apply simp
        apply simp
       apply (simp add: pagination_field_def)
      apply (rule l1)
     apply (rule l2)
    apply (rule b)
    done
qed

theorem get_facts_page_size_counterexample:
  "get_facts example_db (Some 1) (Some 0) None
     = Inr (Response (JObj
         [(''facts'', JList [to_dict (hd (facts example_db))]),
          (''pagination'', JObj [(''page'', JInt 1), (''pages'', JInt 1),
                                 (''per_page'', JInt 0), (''total'', JInt 1)])]))
   \<and> \<not> int (length [to_dict (hd (facts example_db))]) \<le> 0
   \<and> get_facts example_db (Some 1) (Some (- 1)) None
     = Inr (Response (JObj
         [(''facts'', JList [to_dict (hd (facts example_db))]),
          (''pagination'', JObj [(''page'', JInt 1), (''pages'', JInt 1),
                                 (''per_page'', JInt (- 1)), (''total'', JInt 1)])]))
   \<and> get_facts example_db (Some (10 ^ 19)) (Some 10) None = Inl (Exn ''OverflowError'')
   \<and> fst (serve example_lib example_ctx (GetFacts (Some (10 ^ 19)) (Some 10) None) example_db)
       = Tuple (err ''Internal server error'') 500"
  by (simp add: get_facts_def paginate_def page_offset_def in_int64_def active_facts_def
      track_usage_def commit_add_usage_def example_db_def example_ctx_def Let_def)

theorem get_facts_page_size_witness:
  "get_facts example_db (Some 5) (Some 1) None
     = Inr (Response (JObj
         [(''facts'', JList []),
          (''pagination'', JObj [(''page'', JInt 5), (''pages'', JInt 1),
                                 (''per_page'', JInt 1), (''total'', JInt 1)])]))
   \<and> (\<exists>r fs. get_facts example_db (Some 1) (Some 1) None = Inr r \<and> http_status r = 200
          \<and> field ''facts'' (body r) = Some (JList fs) \<and> int (length fs) \<le> 1)"
proof -
  have i5: "in_int64 (page_offset (case Some 5 of None \<Rightarrow> 1 | Some p \<Rightarrow> p)
               (min (case Some 1 of None \<Rightarrow> 10 | Some n \<Rightarrow> n) 50))"
    by (simp add: in_int64_def page_offset_def)
  have i1: "in_int64 (page_offset (case Some 1 of None \<Rightarrow> 1 | Some p \<Rightarrow> p)
               (min (case Some 1 of None \<Rightarrow> 10 | Some n \<Rightarrow> n) 50))"
    by (simp add: in_int64_def page_offset_def)
  have v: "get_facts example_db (Some 5) (Some 1) None
     = Inr (Response (JObj
         [(''facts'', JList []),
          (''pagination'', JObj [(''page'', JInt 5), (''pages'', JInt 1),
                                 (''per_page'', JInt 1), (''total'', JInt 1)])]))"
    by (simp add: get_facts_def paginate_def page_offset_def in_int64_def active_facts_def
        example_db_def Let_def)
  from get_facts_page_size [of "Some 5" "Some 1" example_db None, THEN mp, OF i5]
  obtain r fs pages where
    g: "get_facts example_db (Some 5) (Some 1) None = Inr r"
    and f: "field ''facts'' (body r) = Some (JList fs)"
    and q: "pagination_field ''pages'' r = Some (JInt pages)"
    and e: "pages < (case Some 5 of None \<Rightarrow> 1 | Some p \<Rightarrow> p) \<longrightarrow> fs = []"
    by blast
  from g v q have "pages = 1"
    by (auto simp: pagination_field_def)
  with e have "fs = []" by simp
  with g v f have a: "get_facts example_db (Some 5) (Some 1) None
     = Inr (Response (JObj
         [(''facts'', JList []),
          (''pagination'', JObj [(''page'', JInt 5), (''pages'', JInt 1),
                                 (''per_page'', JInt 1), (''total'', JInt 1)])]))"
    by simp
  from get_facts_page_size [of "Some 1" "Some 1" example_db None, THEN mp, OF i1]
  have b: "\<exists>r fs. get_facts example_db (Some 1) (Some 1) None = Inr r \<and> http_status r = 200
          \<and> field ''facts'' (body r) = Some (JList fs) \<and> int (length fs) \<le> 1"
    by auto
  from a b show ?thesis by (rule conjI)
qed



end
